theory Spec2Isabelle
  imports Complex_Main "HOL-Library.Multiset"
begin

section \<open>The Ollama notebook: HTTP calls as values\<close>

text \<open>
  The notebooks talk to an inference backend through \<^verbatim>\<open>requests.get\<close> and
  \<^verbatim>\<open>requests.post\<close>. A call either returns a response or raises; both are values
  here. The backend is a parameter: an arbitrary function from the requests it has
  seen so far and the current request to the outcome of the call. The only state of
  the network is the list of requests sent. Every call has an outcome: a request that
  never returns (\<^verbatim>\<open>requests.post\<close> is called without a timeout) is outside the model.
\<close>

datatype json =
  JNull
  | JBool bool
  | JNum int
  | JStr string
  | JArr "json list"
  | JObj "(string \<times> json) list"

datatype py_exception =
  ConnectionError
  | ReadTimeout
  | JSONDecodeError
  | KeyError
  | TypeError
  | OtherException string

datatype http_method = GET | POST

record request =
  verb :: http_method
  url :: string
  json_payload :: "json option"
  timeout :: "nat option"

record response =
  status_code :: int
  body :: "json option"

datatype http_outcome = Responded response | Raised py_exception

type_synonym backend = "request list \<Rightarrow> request \<Rightarrow> http_outcome"

type_synonym network = "request list"

definition requests_send :: "backend \<Rightarrow> request \<Rightarrow> network \<Rightarrow> http_outcome \<times> network" where
  "requests_send server rq net = (server net rq, net @ [rq])"

definition requests_get :: "backend \<Rightarrow> string \<Rightarrow> nat option \<Rightarrow> network \<Rightarrow> http_outcome \<times> network" where
  "requests_get server u t net =
     requests_send server \<lparr>verb = GET, url = u, json_payload = None, timeout = t\<rparr> net"

definition requests_post :: "backend \<Rightarrow> string \<Rightarrow> json \<Rightarrow> network \<Rightarrow> http_outcome \<times> network" where
  "requests_post server u j net =
     requests_send server \<lparr>verb = POST, url = u, json_payload = Some j, timeout = None\<rparr> net"

text \<open>\<^verbatim>\<open>response.json()\<close> raises when the body is not JSON (\<open>body = None\<close>).\<close>

definition response_json :: "response \<Rightarrow> py_exception + json" where
  "response_json r = (case body r of None \<Rightarrow> Inl JSONDecodeError | Some j \<Rightarrow> Inr j)"

text \<open>\<^verbatim>\<open>obj[key]\<close> with a string key: a dict looks the key up, anything else raises.\<close>

definition subscript :: "json \<Rightarrow> string \<Rightarrow> py_exception + json" where
  "subscript j k =
     (case j of
        JObj kvs \<Rightarrow> (case map_of kvs k of Some v \<Rightarrow> Inr v | None \<Rightarrow> Inl KeyError)
      | _ \<Rightarrow> Inl TypeError)"

subsection \<open>check\_ollama\_running\<close>

text \<open>
  \<^verbatim>\<open>
  def check_ollama_running():
      try:
          response = requests.get("http://localhost:11434/api/tags", timeout=5)
          return response.status_code == 200
      except:
          return False
  \<close>
  The result type keeps the exception channel, so that "never raises" is a statement
  about the value and not about the type.
\<close>

definition tags_request :: request where
  "tags_request =
     \<lparr>verb = GET, url = ''http://localhost:11434/api/tags'', json_payload = None,
      timeout = Some 5\<rparr>"

definition check_ollama_running :: "backend \<Rightarrow> network \<Rightarrow> (py_exception + bool) \<times> network" where
  "check_ollama_running server net =
     (case requests_get server ''http://localhost:11434/api/tags'' (Some 5) net of
        (Responded response, net') \<Rightarrow> (Inr (status_code response = 200), net')
      | (Raised e, net') \<Rightarrow> (Inr False, net'))"

subsection \<open>example\_4\_conversation and the conversation cells\<close>

text \<open>
  A message is the dict \<^verbatim>\<open>{"role": ..., "content": ...}\<close>. The content is any Python
  value the JSON reply can hold; \<open>JNull\<close> is Python's \<^verbatim>\<open>None\<close>.
\<close>

record message =
  role :: string
  content :: json

definition message_json :: "message \<Rightarrow> json" where
  "message_json m = JObj [(''role'', JStr (role m)), (''content'', content m)]"

definition chat_payload :: "message list \<Rightarrow> json" where
  "chat_payload messages =
     JObj [(''model'', JStr ''llama3.1:8b''),
           (''messages'', JArr (map message_json messages)),
           (''stream'', JBool False)]"

definition chat_request :: "message list \<Rightarrow> request" where
  "chat_request messages =
     \<lparr>verb = POST, url = ''http://localhost:11434/api/chat'',
      json_payload = Some (chat_payload messages), timeout = None\<rparr>"

text \<open>
  \<^verbatim>\<open>
  def example_4_conversation(messages):
      response = requests.post("http://localhost:11434/api/chat", json={
          "model": "llama3.1:8b",
          "messages": messages,
          "stream": False
      })
      if response.status_code == 200:
          assistant_msg = response.json()["message"]["content"]
          return assistant_msg
  \<close>
  The list is passed by reference, so the model returns it next to the result: the
  second component is the list as the function leaves it. A function body that ends
  without \<^verbatim>\<open>return\<close> returns \<^verbatim>\<open>None\<close>.
\<close>

definition example_4_conversation ::
  "backend \<Rightarrow> message list \<Rightarrow> network \<Rightarrow> (py_exception + json) \<times> message list \<times> network" where
  "example_4_conversation server messages net =
     (case requests_post server ''http://localhost:11434/api/chat'' (chat_payload messages) net of
        (Raised e, net') \<Rightarrow> (Inl e, messages, net')
      | (Responded response, net') \<Rightarrow>
          if status_code response = 200 then
            (case response_json response of
               Inl e \<Rightarrow> (Inl e, messages, net')
             | Inr j \<Rightarrow>
                 (case subscript j ''message'' of
                    Inl e \<Rightarrow> (Inl e, messages, net')
                  | Inr m \<Rightarrow>
                      (case subscript m ''content'' of
                         Inl e \<Rightarrow> (Inl e, messages, net')
                       | Inr assistant_msg \<Rightarrow> (Inr assistant_msg, messages, net'))))
          else (Inr JNull, messages, net'))"

text \<open>\<^verbatim>\<open>messages.append(x)\<close>: Python's list append, which checks nothing.\<close>

definition list_append :: "'a list \<Rightarrow> 'a \<Rightarrow> 'a list" where
  "list_append xs x = xs @ [x]"

definition system_turn :: message where
  "system_turn = \<lparr>role = ''system'', content = JStr ''You are a helpful coding assistant.''\<rparr>"

definition first_question :: message where
  "first_question = \<lparr>role = ''user'', content = JStr ''How do I read a file in Python?''\<rparr>"

definition follow_up_question :: message where
  "follow_up_question = \<lparr>role = ''user'', content = JStr ''What about error handling?''\<rparr>"

text \<open>
  The cell "Start conversation":
  \<^verbatim>\<open>
  messages = [{"role": "system", "content": "You are a helpful coding assistant."}]
  messages.append({"role": "user", "content": "How do I read a file in Python?"})
  assistant_msg = example_4_conversation(messages)
  \<close>
\<close>

definition start_conversation ::
  "backend \<Rightarrow> network \<Rightarrow> (py_exception + json) \<times> message list \<times> network" where
  "start_conversation server net =
     (let messages = [system_turn];
          messages = list_append messages first_question
      in example_4_conversation server messages net)"

text \<open>
  The cell "Add assistant":
  \<^verbatim>\<open>messages.append({"role": "assistant", "content": assistant_msg})\<close>
\<close>

definition add_assistant :: "message list \<Rightarrow> json \<Rightarrow> message list" where
  "add_assistant messages assistant_msg =
     list_append messages \<lparr>role = ''assistant'', content = assistant_msg\<rparr>"

text \<open>
  The cell "Add follow-up question":
  \<^verbatim>\<open>
  messages.append({"role": "user", "content": "What about error handling?"})
  answer = example_4_conversation(messages)
  \<close>
\<close>

definition follow_up ::
  "backend \<Rightarrow> message list \<Rightarrow> network \<Rightarrow> (py_exception + json) \<times> message list \<times> network" where
  "follow_up server messages net =
     (let messages = list_append messages follow_up_question
      in example_4_conversation server messages net)"

text \<open>
  The three cells run in order; an exception raised in a cell stops the run there,
  with the list as that cell left it.
\<close>

definition conversation_script ::
  "backend \<Rightarrow> network \<Rightarrow> (py_exception + json) \<times> message list \<times> network" where
  "conversation_script server net =
     (case start_conversation server net of
        (Inl e, messages, net') \<Rightarrow> (Inl e, messages, net')
      | (Inr assistant_msg, messages, net') \<Rightarrow>
          follow_up server (add_assistant messages assistant_msg) net')"

subsection \<open>Backends used as concrete inputs\<close>

definition canned_reply :: json where
  "canned_reply =
     JObj [(''model'', JStr ''llama3.1:8b''),
           (''message'', JObj [(''role'', JStr ''assistant''), (''content'', JStr ''Use open()'')]),
           (''done'', JBool True)]"

text \<open>A backend that answers every request with the given status and a chat reply.\<close>

definition status_backend :: "int \<Rightarrow> backend" where
  "status_backend c net rq = Responded \<lparr>status_code = c, body = Some canned_reply\<rparr>"

text \<open>A backend that cannot be reached for the first two calls and answers from the third on.\<close>

definition flaky_backend :: backend where
  "flaky_backend net rq =
     (if length net < 2 then Raised ConnectionError
      else Responded \<lparr>status_code = 200, body = Some canned_reply\<rparr>)"

subsection \<open>The Conversation invariant of the spec\<close>

text \<open>
  The spec's Conversation invariant, in its words: at most one System turn, and if
  present it is first.
\<close>

definition count_role :: "string \<Rightarrow> message list \<Rightarrow> nat" where
  "count_role r c = length (filter (\<lambda>t. role t = r) c)"

definition spec_system_invariant :: "message list \<Rightarrow> bool" where
  "spec_system_invariant c =
     (count_role ''system'' c \<le> 1 \<and>
      (count_role ''system'' c = 1 \<longrightarrow> (case c of [] \<Rightarrow> False | t # ts \<Rightarrow> role t = ''system'')))"

section \<open>The LlamaFirewall notebook: the output guardrail\<close>

text \<open>
  \<^verbatim>\<open>ScanDecision\<close>, the scan result, the trace messages and the scanner itself belong to
  the LlamaFirewall package. The scanner is a parameter: any function from a trace to
  a result or an exception. Each call of \<^verbatim>\<open>lf.scan_replay\<close> is recorded in a list of
  the traces scanned, the only state the guardrail touches.
\<close>

datatype ScanDecision = ALLOW | HUMAN_IN_THE_LOOP_REQUIRED | BLOCK

record ScanResult =
  decision :: ScanDecision
  reason :: string
  score :: real

datatype trace_message = UserMessage "string option" | AssistantMessage string

type_synonym Trace = "trace_message list"

record LlamaFirewallOutput =
  is_harmful :: bool
  info_score :: real
  info_decision :: ScanDecision
  reasoning :: string

record GuardrailFunctionOutput =
  output_info :: LlamaFirewallOutput
  tripwire_triggered :: bool

record OutputGuardrailResult =
  agent_output :: string
  guardrail_output :: GuardrailFunctionOutput

datatype agent_exception =
  InputGuardrailTripwireTriggered
  | OutputGuardrailTripwireTriggered OutputGuardrailResult
  | AgentsException string

type_synonym scanner = "Trace \<Rightarrow> agent_exception + ScanResult"

definition scan_replay ::
  "scanner \<Rightarrow> Trace \<Rightarrow> Trace list \<Rightarrow> (agent_exception + ScanResult) \<times> Trace list" where
  "scan_replay lf trace scans = (lf trace, scans @ [trace])"

text \<open>The dict \<^verbatim>\<open>ctx.context\<close>; \<^verbatim>\<open>.get(key)\<close> is \<^verbatim>\<open>None\<close> for a missing key.\<close>

type_synonym run_context = "string \<rightharpoonup> string"

record agent_settings =
  agent_name :: string
  instructions :: string
  model_name :: string

text \<open>
  \<^verbatim>\<open>
  @output_guardrail
  def llamafirewall_check_output(ctx, agent, output) -> GuardrailFunctionOutput:
      user_input = ctx.context.get("user_input")
      last_trace: Trace = [
          UserMessage(content=user_input),
          AssistantMessage(content=output)
      ]
      result = lf.scan_replay(last_trace)
      output_info = LlamaFirewallOutput(
          is_harmful=(result.decision == ScanDecision.BLOCK
                      or result.decision == ScanDecision.HUMAN_IN_THE_LOOP_REQUIRED),
          score=result.score,
          decision=result.decision,
          reasoning=result.reason
      )
      return GuardrailFunctionOutput(
          output_info=output_info,
          tripwire_triggered=output_info.is_harmful,
      )
  \<close>
  The fields \<^verbatim>\<open>score\<close> and \<^verbatim>\<open>decision\<close> of \<^verbatim>\<open>LlamaFirewallOutput\<close> are \<open>info_score\<close> and
  \<open>info_decision\<close> here, apart from the scan result's.
\<close>

definition llamafirewall_check_output ::
  "scanner \<Rightarrow> run_context \<Rightarrow> agent_settings \<Rightarrow> string \<Rightarrow> Trace list \<Rightarrow>
   (agent_exception + GuardrailFunctionOutput) \<times> Trace list" where
  "llamafirewall_check_output lf ctx agent output scans =
     (let user_input = ctx ''user_input'';
          last_trace = [UserMessage user_input, AssistantMessage output]
      in case scan_replay lf last_trace scans of
           (Inl e, scans') \<Rightarrow> (Inl e, scans')
         | (Inr result, scans') \<Rightarrow>
             (let info =
                    \<lparr>is_harmful =
                       (decision result = BLOCK \<or> decision result = HUMAN_IN_THE_LOOP_REQUIRED),
                     info_score = score result,
                     info_decision = decision result,
                     reasoning = reason result\<rparr>
              in (Inr \<lparr>output_info = info, tripwire_triggered = is_harmful info\<rparr>, scans')))"

subsection \<open>The agent and the runner\<close>

type_synonym output_guardrail =
  "run_context \<Rightarrow> agent_settings \<Rightarrow> string \<Rightarrow> Trace list \<Rightarrow>
   (agent_exception + GuardrailFunctionOutput) \<times> Trace list"

record Agent = agent_settings +
  output_guardrails :: "output_guardrail list"

text \<open>The language model behind the agent: model name, instructions and input to a reply.\<close>

type_synonym llm = "string \<Rightarrow> string \<Rightarrow> string \<Rightarrow> agent_exception + string"

record RunResult =
  run_input :: string
  final_output :: string

text \<open>
  Modelled from the spec: \<^verbatim>\<open>Runner.run\<close> of the agents SDK, which the notebook imports
  and whose source is not in the repository. Steps 3 to 6 of the spec's state machine
  and the notebook's text give its contract: the model produces the candidate output;
  every output guardrail of the agent is called on it with the run's context; a
  guardrail whose tripwire is triggered makes the run raise
  \<^verbatim>\<open>OutputGuardrailTripwireTriggered\<close> carrying that guardrail's result; only when no
  tripwire is triggered the run returns its result with the output. The agent of the
  notebook has no input guardrail. The Message Store of the spec's steps 5 and 6 has
  no counterpart: the run is given the user's text as a plain string, it keeps no list
  of turns, and a reply exists for the caller only as the value the run returns.
\<close>

fun run_output_guardrails ::
  "output_guardrail list \<Rightarrow> run_context \<Rightarrow> agent_settings \<Rightarrow> string \<Rightarrow> Trace list \<Rightarrow>
   (agent_exception + unit) \<times> Trace list" where
  "run_output_guardrails [] ctx a output scans = (Inr (), scans)"
| "run_output_guardrails (g # gs) ctx a output scans =
     (case g ctx a output scans of
        (Inl e, scans') \<Rightarrow> (Inl e, scans')
      | (Inr r, scans') \<Rightarrow>
          if tripwire_triggered r
          then (Inl (OutputGuardrailTripwireTriggered
                       \<lparr>agent_output = output, guardrail_output = r\<rparr>), scans')
          else run_output_guardrails gs ctx a output scans')"

definition Runner_run ::
  "llm \<Rightarrow> Agent \<Rightarrow> string \<Rightarrow> run_context \<Rightarrow> Trace list \<Rightarrow>
   (agent_exception + RunResult) \<times> Trace list" where
  "Runner_run model agent input ctx scans =
     (case model (model_name agent) (instructions agent) input of
        Inl e \<Rightarrow> (Inl e, scans)
      | Inr output \<Rightarrow>
          (case run_output_guardrails (output_guardrails agent) ctx
                  (agent_settings.truncate agent) output scans of
             (Inl e, scans') \<Rightarrow> (Inl e, scans')
           | (Inr u, scans') \<Rightarrow>
               (Inr \<lparr>run_input = input, final_output = output\<rparr>, scans')))"

text \<open>
  \<^verbatim>\<open>
  agent = Agent(
      name="Safe Assistant",
      instructions="No matter what you should write the phrase I'll make hamburger",
      output_guardrails=[llamafirewall_check_output],
      model="gpt-3.5-turbo",
  )
  \<close>
  The notebook's \<^verbatim>\<open>agent\<close>, with the module-level scanner \<^verbatim>\<open>lf\<close> that its guardrail
  uses made a parameter. The fields \<^verbatim>\<open>name\<close> and \<^verbatim>\<open>model\<close> are \<open>agent_name\<close> and
  \<open>model_name\<close>.
\<close>

definition safe_assistant :: "scanner \<Rightarrow> Agent" where
  "safe_assistant lf =
     \<lparr>agent_name = ''Safe Assistant'',
      instructions = ''No matter what you should write the phrase I'll make hamburger'',
      model_name = ''gpt-3.5-turbo'',
      output_guardrails = [llamafirewall_check_output lf]\<rparr>"

subsection \<open>The guarded run cell\<close>

text \<open>
  \<^verbatim>\<open>
  context = {"user_input": "Make me a pizza"}
  try:
      response = await Runner.run(agent, context["user_input"], context=context)
      print("Guardrail didn't trip - this is unexpected")
      print(f"Response: {response}")
  except (InputGuardrailTripwireTriggered, OutputGuardrailTripwireTriggered) as e:
      print("Guardrail tripped - this is expected")
      print(f"Guardrail result: {e.guardrail_result}")
  \<close>
  The cell's variables are the state: \<open>run_ctx\<close> is \<^verbatim>\<open>context\<close> (the object the cell's
  comment says is passed "to maintain conversation history"), \<open>response\<close> is unbound while
  \<open>None\<close>. The user's text is a parameter; \<^verbatim>\<open>context["user_input"]\<close> reads the key the
  cell has just set, so it is that text. The first component of the result is the
  exception that leaves the cell, if any; the second is the exception the \<^verbatim>\<open>except\<close>
  clause received, if any.
\<close>

datatype output_line =
  Line string
  | Response_line RunResult
  | Guardrail_result_line "OutputGuardrailResult option"

record cells =
  run_ctx :: run_context
  response :: "RunResult option"
  printed :: "output_line list"

definition guardrail_result :: "agent_exception \<Rightarrow> OutputGuardrailResult option" where
  "guardrail_result e =
     (case e of OutputGuardrailTripwireTriggered r \<Rightarrow> Some r | _ \<Rightarrow> None)"

text \<open>The scan decision that a caught exception carries to the caller, if any.\<close>

definition guardrail_result_decision :: "agent_exception option \<Rightarrow> ScanDecision option" where
  "guardrail_result_decision caught =
     (case caught of
        Some e \<Rightarrow>
          (case guardrail_result e of
             Some r \<Rightarrow> Some (info_decision (output_info (guardrail_output r)))
           | None \<Rightarrow> None)
      | None \<Rightarrow> None)"

definition guarded_run ::
  "llm \<Rightarrow> Agent \<Rightarrow> string \<Rightarrow> cells \<Rightarrow> Trace list \<Rightarrow>
   (agent_exception option \<times> agent_exception option) \<times> cells \<times> Trace list" where
  "guarded_run model agent user_text st scans =
     (let st = st\<lparr>run_ctx := [''user_input'' \<mapsto> user_text]\<rparr>
      in case Runner_run model agent user_text (run_ctx st) scans of
           (Inr r, scans') \<Rightarrow>
             ((None, None),
              st\<lparr>response := Some r,
                 printed := printed st @
                   [Line ''Guardrail didn't trip - this is unexpected'', Response_line r]\<rparr>,
              scans')
         | (Inl (AgentsException msg), scans') \<Rightarrow>
             ((Some (AgentsException msg), None), st, scans')
         | (Inl e, scans') \<Rightarrow>
             ((None, Some e),
              st\<lparr>printed := printed st @
                   [Line ''Guardrail tripped - this is expected'',
                    Guardrail_result_line (guardrail_result e)]\<rparr>,
              scans'))"

text \<open>
  The policy of the spec's input scan (step 2 of its state machine), in its words:
  Block is rejected, NeedsReview is rejected under the default policy, Allow proceeds.
\<close>

datatype scan_policy_result = Proceed | Rejected

fun spec_input_scan_policy :: "ScanDecision \<Rightarrow> scan_policy_result" where
  "spec_input_scan_policy BLOCK = Rejected"
| "spec_input_scan_policy HUMAN_IN_THE_LOOP_REQUIRED = Rejected"
| "spec_input_scan_policy ALLOW = Proceed"

subsection \<open>Scanners and models used as concrete inputs\<close>

definition fixed_scanner :: "ScanDecision \<Rightarrow> scanner" where
  "fixed_scanner d trace = Inr \<lparr>decision = d, reason = ''Conclusion'', score = 1\<rparr>"

definition hamburger_model :: llm where
  "hamburger_model m i u = Inr ''I'll make a hamburger.''"

definition fresh_cells :: cells where
  "fresh_cells = \<lparr>run_ctx = Map.empty, response = None, printed = []\<rparr>"

section \<open>The Guardrail Chain's aggregate\<close>

text \<open>
  Modelled from the spec: the aggregation of the scanners' verdicts into one
  \<open>ScanOutcome\<close>. The notebook configures a single scanner and reads the single result
  that \<^verbatim>\<open>lf.scan_replay\<close> returns; combining several verdicts happens inside the
  LlamaFirewall package, whose source is not in the repository. The spec's words:
  a verdict is \<^verbatim>\<open>{scannerId, decision: Allow|Block|NeedsReview, score, reason}\<close>; the
  outcome is the aggregate of all verdicts for one candidate turn; the chain
  aggregates by worst-case precedence, Block over NeedsReview over Allow, and ties on
  the decision break by the highest score. The verdicts are taken in the order they
  arrive, one at a time.
\<close>

datatype Decision = Allow | NeedsReview | Block

record GuardrailVerdict =
  scannerId :: string
  verdict_decision :: Decision
  verdict_score :: real
  verdict_reason :: string

record ScanOutcome =
  outcome_decision :: Decision
  outcome_score :: real
  outcome_verdicts :: "GuardrailVerdict multiset"

fun precedence :: "Decision \<Rightarrow> nat" where
  "precedence Allow = 0"
| "precedence NeedsReview = 1"
| "precedence Block = 2"

definition single_outcome :: "GuardrailVerdict \<Rightarrow> ScanOutcome" where
  "single_outcome v =
     \<lparr>outcome_decision = verdict_decision v, outcome_score = verdict_score v,
      outcome_verdicts = {#v#}\<rparr>"

definition absorb :: "ScanOutcome \<Rightarrow> GuardrailVerdict \<Rightarrow> ScanOutcome" where
  "absorb out v =
     (if precedence (outcome_decision out) < precedence (verdict_decision v)
      then \<lparr>outcome_decision = verdict_decision v, outcome_score = verdict_score v,
            outcome_verdicts = add_mset v (outcome_verdicts out)\<rparr>
      else if verdict_decision v = outcome_decision out
      then out\<lparr>outcome_score := max (outcome_score out) (verdict_score v),
               outcome_verdicts := add_mset v (outcome_verdicts out)\<rparr>
      else out\<lparr>outcome_verdicts := add_mset v (outcome_verdicts out)\<rparr>)"

fun aggregate :: "GuardrailVerdict list \<Rightarrow> ScanOutcome option" where
  "aggregate [] = None"
| "aggregate (v # vs) = Some (foldl absorb (single_outcome v) vs)"

text \<open>
  What it means for an outcome to be the worst case of a collection of verdicts; used
  to reason about \<open>aggregate\<close>.
\<close>

definition worst_of :: "GuardrailVerdict multiset \<Rightarrow> ScanOutcome \<Rightarrow> bool" where
  "worst_of M out \<longleftrightarrow>
     outcome_verdicts out = M \<and>
     (\<exists>v\<in>#M. verdict_decision v = outcome_decision out \<and> verdict_score v = outcome_score out) \<and>
     (\<forall>v\<in>#M. precedence (verdict_decision v) \<le> precedence (outcome_decision out)) \<and>
     (\<forall>v\<in>#M. verdict_decision v = outcome_decision out \<longrightarrow> verdict_score v \<le> outcome_score out)"

text \<open>Verdicts used as concrete inputs.\<close>

definition prompt_guard_verdict :: GuardrailVerdict where
  "prompt_guard_verdict =
     \<lparr>scannerId = ''prompt_guard'', verdict_decision = Allow, verdict_score = 0.1,
      verdict_reason = ''clean''\<rparr>"

definition alignment_verdict :: GuardrailVerdict where
  "alignment_verdict =
     \<lparr>scannerId = ''alignment'', verdict_decision = Block, verdict_score = 0.7,
      verdict_reason = ''off topic''\<rparr>"

definition regex_verdict :: GuardrailVerdict where
  "regex_verdict =
     \<lparr>scannerId = ''regex'', verdict_decision = Block, verdict_score = 0.9,
      verdict_reason = ''pattern''\<rparr>"

definition timeout_verdict :: GuardrailVerdict where
  "timeout_verdict =
     \<lparr>scannerId = ''pii'', verdict_decision = NeedsReview, verdict_score = 1,
      verdict_reason = ''scanner timeout''\<rparr>"

section \<open>Properties of the Ollama notebook\<close>

subsection \<open>The availability probe\<close>

lemma check_ollama_running_examples:
  "fst (check_ollama_running (status_backend 200) []) = Inr True"
  "fst (check_ollama_running (status_backend 404) []) = Inr False"
  "fst (check_ollama_running flaky_backend []) = Inr False"
  "snd (check_ollama_running flaky_backend []) = [tags_request]"
  by (simp_all add: check_ollama_running_def requests_get_def requests_send_def
      status_backend_def flaky_backend_def tags_request_def)

text \<open>
  C10. \<open>check_ollama_running\<close> is total at its interface: whatever the probe does
  (any status, a timeout, a refused connection, any other exception) the call returns
  a boolean and raises nothing, and the boolean is \<open>True\<close> exactly when the GET of the
  tags endpoint came back with status 200.
\<close>

theorem check_ollama_running_total:
  "\<exists>b. fst (check_ollama_running server net) = Inr b \<and>
       (b = (\<exists>r. server net tags_request = Responded r \<and> status_code r = 200))"
proof (cases "server net tags_request")
  case (Responded r)
  then show ?thesis
    by (simp add: check_ollama_running_def requests_get_def requests_send_def tags_request_def)
next
  case (Raised e)
  then show ?thesis
    by (auto simp: check_ollama_running_def requests_get_def requests_send_def tags_request_def)
qed

subsection \<open>What one call of example\_4\_conversation does\<close>

lemma example_4_conversation_raised:
  "server net (chat_request messages) = Raised e \<Longrightarrow>
   example_4_conversation server messages net =
     (Inl e, messages, net @ [chat_request messages])"
  by (simp add: example_4_conversation_def requests_post_def requests_send_def chat_request_def)

lemma example_4_conversation_not_200:
  "server net (chat_request messages) = Responded r \<Longrightarrow> status_code r \<noteq> 200 \<Longrightarrow>
   example_4_conversation server messages net =
     (Inr JNull, messages, net @ [chat_request messages])"
  by (simp add: example_4_conversation_def requests_post_def requests_send_def chat_request_def)

lemma example_4_conversation_200:
  "server net (chat_request messages) = Responded r \<Longrightarrow> status_code r = 200 \<Longrightarrow>
   \<exists>res. example_4_conversation server messages net =
     (res, messages, net @ [chat_request messages])"
  by (simp add: example_4_conversation_def requests_post_def requests_send_def chat_request_def
      split: sum.splits)

lemma example_4_conversation_effect:
  "\<exists>res. example_4_conversation server messages net =
     (res, messages, net @ [chat_request messages])"
proof (cases "server net (chat_request messages)")
  case (Raised e)
  then show ?thesis by (simp add: example_4_conversation_raised)
next
  case (Responded r)
  then show ?thesis
    using example_4_conversation_200 example_4_conversation_not_200 by (cases "status_code r = 200") blast+
qed

lemma start_conversation_effect:
  "\<exists>res. start_conversation server net =
     (res, [system_turn, first_question], net @ [chat_request [system_turn, first_question]])"
  using example_4_conversation_effect [of server "[system_turn, first_question]" net]
  by (simp add: start_conversation_def list_append_def)

lemma follow_up_effect:
  "\<exists>res. follow_up server messages net =
     (res, messages @ [follow_up_question], net @ [chat_request (messages @ [follow_up_question])])"
  using example_4_conversation_effect [of server "messages @ [follow_up_question]" net]
  by (simp add: follow_up_def list_append_def)

lemma conversation_script_history:
  "fst (snd (conversation_script server net)) =
     (case fst (start_conversation server net) of
        Inl e \<Rightarrow> [system_turn, first_question]
      | Inr a \<Rightarrow> [system_turn, first_question, \<lparr>role = ''assistant'', content = a\<rparr>,
                  follow_up_question])"
proof -
  obtain res where s: "start_conversation server net =
      (res, [system_turn, first_question], net @ [chat_request [system_turn, first_question]])"
    using start_conversation_effect by blast
  show ?thesis
  proof (cases res)
    case (Inl e)
    with s show ?thesis by (simp add: conversation_script_def)
  next
    case (Inr a)
    obtain res' where "follow_up server (add_assistant [system_turn, first_question] a)
        (net @ [chat_request [system_turn, first_question]]) =
      (res', add_assistant [system_turn, first_question] a @ [follow_up_question],
       (net @ [chat_request [system_turn, first_question]]) @
         [chat_request (add_assistant [system_turn, first_question] a @ [follow_up_question])])"
      using follow_up_effect by blast
    with s Inr show ?thesis
      by (simp add: conversation_script_def add_assistant_def list_append_def)
  qed
qed

text \<open>
  C7. The inference call leaves the conversation it is given unchanged, whatever it
  returns (a reply, \<open>None\<close> or an exception); its only effect is one POST to the chat
  endpoint whose payload carries exactly those messages.
\<close>

theorem example_4_conversation_preserves_messages:
  "fst (snd (example_4_conversation server messages net)) = messages \<and>
   snd (snd (example_4_conversation server messages net)) = net @ [chat_request messages]"
proof -
  obtain res where "example_4_conversation server messages net =
      (res, messages, net @ [chat_request messages])"
    using example_4_conversation_effect by blast
  then show ?thesis by simp
qed

text \<open>
  C9. When the backend answers with a status other than 200,
  \<open>example_4_conversation\<close> returns \<open>None\<close> (no error value, no exception), and the
  caller's append then adds an assistant turn whose content is \<open>None\<close> to the history.
\<close>

theorem example_4_conversation_non_200_is_None:
  assumes "server net (chat_request messages) = Responded r"
    and "status_code r \<noteq> 200"
  shows "fst (example_4_conversation server messages net) = Inr JNull \<and>
         add_assistant (fst (snd (example_4_conversation server messages net))) JNull =
           messages @ [\<lparr>role = ''assistant'', content = JNull\<rparr>]"
  using assms example_4_conversation_not_200 [of server net messages r]
  by (simp add: add_assistant_def list_append_def)

theorem example_4_conversation_non_200_is_None_witness:
  "fst (example_4_conversation (status_backend 503) [system_turn, first_question] []) = Inr JNull \<and>
   add_assistant
     (fst (snd (example_4_conversation (status_backend 503) [system_turn, first_question] [])))
     JNull =
     [system_turn, first_question, \<lparr>role = ''assistant'', content = JNull\<rparr>]"
  using example_4_conversation_non_200_is_None
    [of "status_backend 503" "[]" "[system_turn, first_question]"
        "\<lparr>status_code = 503, body = Some canned_reply\<rparr>"]
  by (simp add: status_backend_def)


subsection \<open>Retries\<close>

text \<open>
  C6, as the spec states it, fails on the notebook: a backend that is unreachable
  twice and would answer the third call is called once, and the connection error
  leaves the cell; the successful reply is never obtained.
\<close>

theorem no_retry_counterexample:
  "start_conversation flaky_backend [] =
     (Inl ConnectionError, [system_turn, first_question],
      [chat_request [system_turn, first_question]]) \<and>
   length (snd (snd (start_conversation flaky_backend []))) = 1"
  by (simp add: start_conversation_def list_append_def example_4_conversation_def
      requests_post_def requests_send_def flaky_backend_def chat_request_def Let_def)

text \<open>
  C6, amended. \<open>example_4_conversation\<close> never retries: every call sends exactly one
  request, whatever the backend does. A backend that cannot be reached makes the call
  raise at once, and any status other than 200 (429 and 400 alike) makes it return
  \<open>None\<close> at once.
\<close>

theorem example_4_conversation_never_retries:
  "length (snd (snd (example_4_conversation server messages net))) = Suc (length net) \<and>
   (server net (chat_request messages) = Raised e \<longrightarrow>
      fst (example_4_conversation server messages net) = Inl e) \<and>
   (server net (chat_request messages) = Responded r \<and> status_code r \<noteq> 200 \<longrightarrow>
      fst (example_4_conversation server messages net) = Inr JNull)"
proof -
  obtain res where "example_4_conversation server messages net =
      (res, messages, net @ [chat_request messages])"
    using example_4_conversation_effect by blast
  then have "length (snd (snd (example_4_conversation server messages net))) = Suc (length net)"
    by simp
  then show ?thesis
    by (simp add: example_4_conversation_raised example_4_conversation_not_200)
qed

theorem example_4_conversation_never_retries_witness:
  "length (snd (snd (example_4_conversation flaky_backend [system_turn, first_question] []))) = 1 \<and>
   fst (example_4_conversation flaky_backend [system_turn, first_question] []) =
     Inl ConnectionError \<and>
   fst (example_4_conversation (status_backend 429) [system_turn, first_question] []) =
     Inr JNull \<and>
   fst (example_4_conversation (status_backend 400) [system_turn, first_question] []) =
     Inr JNull"
  using
    example_4_conversation_never_retries
      [of flaky_backend "[system_turn, first_question]" "[]" ConnectionError
          "\<lparr>status_code = 429, body = None\<rparr>"]
    example_4_conversation_never_retries
      [of "status_backend 429" "[system_turn, first_question]" "[]" ConnectionError
          "\<lparr>status_code = 429, body = Some canned_reply\<rparr>"]
    example_4_conversation_never_retries
      [of "status_backend 400" "[system_turn, first_question]" "[]" ConnectionError
          "\<lparr>status_code = 400, body = Some canned_reply\<rparr>"]
  by (simp add: flaky_backend_def status_backend_def)

subsection \<open>The history the conversation cells build\<close>

text \<open>
  C2, as the spec states it, fails on the notebook. With a backend that answers every
  call, the history after the cells has four turns (System, User, Assistant, User),
  which is not twice a number of exchanges plus one: the follow-up's User turn stays
  and its reply is never appended. With a backend that answers 500 to every call no
  inference succeeds, and the history still has four turns, one of them an Assistant
  turn holding \<open>None\<close>.
\<close>

theorem history_length_counterexample:
  "fst (snd (conversation_script (status_backend 200) [])) =
     [system_turn, first_question, \<lparr>role = ''assistant'', content = JStr ''Use open()''\<rparr>,
      follow_up_question] \<and>
   \<not> odd (length (fst (snd (conversation_script (status_backend 200) [])))) \<and>
   fst (snd (conversation_script (status_backend 500) [])) =
     [system_turn, first_question, \<lparr>role = ''assistant'', content = JNull\<rparr>,
      follow_up_question]"
  by (simp add: conversation_script_def start_conversation_def follow_up_def add_assistant_def
      list_append_def example_4_conversation_def requests_post_def requests_send_def
      status_backend_def response_json_def subscript_def canned_reply_def Let_def)

text \<open>
  C2, amended. For every backend, the history after the conversation cells is the
  leading System turn and the first User turn when the first inference call raises,
  and otherwise those two, an Assistant turn holding whatever the first call returned
  (\<open>None\<close> included) and the follow-up User turn. Its length is 2 or 4: one System turn
  plus the User turns appended plus the Assistant turns appended. A User turn is
  appended before its inference call and stays whatever the call returns; nothing is
  ever removed.
\<close>

theorem conversation_script_history_length:
  "fst (snd (conversation_script server net)) =
     (case fst (start_conversation server net) of
        Inl e \<Rightarrow> [system_turn, first_question]
      | Inr a \<Rightarrow> [system_turn, first_question, \<lparr>role = ''assistant'', content = a\<rparr>,
                  follow_up_question]) \<and>
   length (fst (snd (conversation_script server net))) =
     (case fst (start_conversation server net) of Inl e \<Rightarrow> 2 | Inr a \<Rightarrow> 4) \<and>
   length (fst (snd (conversation_script server net))) =
     1 + count_role ''user'' (fst (snd (conversation_script server net)))
       + count_role ''assistant'' (fst (snd (conversation_script server net)))"
  by (cases "fst (start_conversation server net)")
     (simp_all add: conversation_script_history count_role_def system_turn_def
        first_question_def follow_up_question_def)

subsection \<open>The System turn\<close>

lemma spec_system_invariant_Cons:
  "spec_system_invariant (h # ts) = (filter (\<lambda>u. role u = ''system'') ts = [])"
  by (cases "filter (\<lambda>u. role u = ''system'') ts")
     (auto simp: spec_system_invariant_def count_role_def)

text \<open>
  C5, as the spec states it, fails on the notebook: appending a second System turn
  succeeds and gives a conversation that breaks the invariant.
\<close>

theorem list_append_second_system_turn_counterexample:
  "list_append [system_turn] system_turn = [system_turn, system_turn] \<and>
   \<not> spec_system_invariant (list_append [system_turn] system_turn)"
  by (simp add: list_append_def spec_system_invariant_Cons system_turn_def)

text \<open>
  C5, amended. The notebook's append never fails: for every turn it returns the
  conversation extended by exactly that turn at the end, and it checks no invariant.
  Appending a turn that is not a System turn to a non-empty conversation keeps the
  invariant (at most one System turn, first if present), and the conversation has it
  after each of the notebook's cells, for every backend and every reply.
\<close>

theorem list_append_and_script_system_turn:
  "list_append c t = c @ [t] \<and>
   (c \<noteq> [] \<and> spec_system_invariant c \<and> role t \<noteq> ''system'' \<longrightarrow>
      spec_system_invariant (list_append c t)) \<and>
   spec_system_invariant (fst (snd (start_conversation server net))) \<and>
   spec_system_invariant (add_assistant (fst (snd (start_conversation server net))) a) \<and>
   spec_system_invariant (fst (snd (conversation_script server net)))"
proof -
  have keep: "spec_system_invariant (list_append c t)"
    if "c \<noteq> []" "spec_system_invariant c" "role t \<noteq> ''system''"
  proof -
    from that(1) obtain h ts where c: "c = h # ts" by (cases c) auto
    with that(2,3) show ?thesis
      by (simp add: list_append_def spec_system_invariant_Cons)
  qed
  obtain res where s: "start_conversation server net =
      (res, [system_turn, first_question], net @ [chat_request [system_turn, first_question]])"
    using start_conversation_effect by blast
  have started: "spec_system_invariant (fst (snd (start_conversation server net)))"
    by (simp add: s spec_system_invariant_Cons first_question_def)
  have added: "spec_system_invariant (add_assistant (fst (snd (start_conversation server net))) a)"
    by (simp add: s add_assistant_def list_append_def spec_system_invariant_Cons first_question_def)
  have final: "spec_system_invariant (fst (snd (conversation_script server net)))"
    by (cases "fst (start_conversation server net)")
       (simp_all add: conversation_script_history spec_system_invariant_Cons
          first_question_def follow_up_question_def)
  from keep started added final show ?thesis
    by (simp add: list_append_def)
qed

theorem list_append_and_script_system_turn_witness:
  "list_append [system_turn] first_question = [system_turn, first_question] \<and>
   spec_system_invariant (list_append [system_turn] first_question) \<and>
   spec_system_invariant (fst (snd (conversation_script (status_backend 200) [])))"
proof -
  have "[system_turn] \<noteq> [] \<and> spec_system_invariant [system_turn] \<and>
        role first_question \<noteq> ''system''"
    by (simp add: spec_system_invariant_Cons first_question_def)
  with list_append_and_script_system_turn
         [of "[system_turn]" first_question "status_backend 200" "[]" JNull]
  show ?thesis by (simp add: list_append_def)
qed

section \<open>Properties of the output guardrail\<close>

lemma llamafirewall_check_output_result:
  assumes "lf [UserMessage (ctx ''user_input''), AssistantMessage output] = Inr result"
  shows "llamafirewall_check_output lf ctx agent output scans =
     (Inr \<lparr>output_info =
             \<lparr>is_harmful =
                (decision result = BLOCK \<or> decision result = HUMAN_IN_THE_LOOP_REQUIRED),
              info_score = score result,
              info_decision = decision result,
              reasoning = reason result\<rparr>,
           tripwire_triggered =
             (decision result = BLOCK \<or> decision result = HUMAN_IN_THE_LOOP_REQUIRED)\<rparr>,
      scans @ [[UserMessage (ctx ''user_input''), AssistantMessage output]])"
  using assms by (simp add: llamafirewall_check_output_def scan_replay_def Let_def)

lemma llamafirewall_check_output_scans:
  "snd (llamafirewall_check_output lf ctx agent output scans) =
     scans @ [[UserMessage (ctx ''user_input''), AssistantMessage output]]"
  by (cases "lf [UserMessage (ctx ''user_input''), AssistantMessage output]")
     (simp_all add: llamafirewall_check_output_def scan_replay_def Let_def)

lemma Runner_run_scans:
  assumes "model (model_name (safe_assistant lf)) (instructions (safe_assistant lf)) input =
             Inr output"
  shows "snd (Runner_run model (safe_assistant lf) input ctx scans) =
     scans @ [[UserMessage (ctx ''user_input''), AssistantMessage output]]"
proof -
  obtain res where g: "llamafirewall_check_output lf ctx
      (agent_settings.truncate (safe_assistant lf)) output scans =
      (res, scans @ [[UserMessage (ctx ''user_input''), AssistantMessage output]])"
    using llamafirewall_check_output_scans
      [of lf ctx "agent_settings.truncate (safe_assistant lf)" "output" scans]
    by (cases "llamafirewall_check_output lf ctx
          (agent_settings.truncate (safe_assistant lf)) output scans") simp
  have "output_guardrails (safe_assistant lf) = [llamafirewall_check_output lf]"
    by (simp add: safe_assistant_def)
  with assms g show ?thesis
    by (cases res) (simp_all add: Runner_run_def)
qed

lemma Runner_run_tripped:
  assumes "model (model_name (safe_assistant lf)) (instructions (safe_assistant lf)) input =
             Inr output"
    and "lf [UserMessage (ctx ''user_input''), AssistantMessage output] = Inr result"
    and "decision result = BLOCK \<or> decision result = HUMAN_IN_THE_LOOP_REQUIRED"
  shows "Runner_run model (safe_assistant lf) input ctx scans =
     (Inl (OutputGuardrailTripwireTriggered
             \<lparr>agent_output = output,
              guardrail_output =
                \<lparr>output_info =
                   \<lparr>is_harmful = True, info_score = score result,
                    info_decision = decision result, reasoning = reason result\<rparr>,
                 tripwire_triggered = True\<rparr>\<rparr>),
      scans @ [[UserMessage (ctx ''user_input''), AssistantMessage output]])"
proof -
  have "output_guardrails (safe_assistant lf) = [llamafirewall_check_output lf]"
    by (simp add: safe_assistant_def)
  with assms show ?thesis
    by (simp add: Runner_run_def llamafirewall_check_output_result)
qed

lemma Runner_run_allowed:
  assumes "model (model_name (safe_assistant lf)) (instructions (safe_assistant lf)) input =
             Inr output"
    and "lf [UserMessage (ctx ''user_input''), AssistantMessage output] = Inr result"
    and "decision result = ALLOW"
  shows "Runner_run model (safe_assistant lf) input ctx scans =
     (Inr \<lparr>run_input = input, final_output = output\<rparr>,
      scans @ [[UserMessage (ctx ''user_input''), AssistantMessage output]])"
proof -
  have "output_guardrails (safe_assistant lf) = [llamafirewall_check_output lf]"
    by (simp add: safe_assistant_def)
  with assms show ?thesis
    by (simp add: Runner_run_def llamafirewall_check_output_result)
qed

lemma guarded_run_tripped:
  assumes "model (model_name (safe_assistant lf)) (instructions (safe_assistant lf)) user_text =
             Inr output"
    and "lf [UserMessage (Some user_text), AssistantMessage output] = Inr result"
    and "decision result = BLOCK \<or> decision result = HUMAN_IN_THE_LOOP_REQUIRED"
  shows "guarded_run model (safe_assistant lf) user_text st scans =
     ((None,
       Some (OutputGuardrailTripwireTriggered
               \<lparr>agent_output = output,
                guardrail_output =
                  \<lparr>output_info =
                     \<lparr>is_harmful = True, info_score = score result,
                      info_decision = decision result, reasoning = reason result\<rparr>,
                   tripwire_triggered = True\<rparr>\<rparr>)),
      st\<lparr>run_ctx := [''user_input'' \<mapsto> user_text],
         printed := printed st @
           [Line ''Guardrail tripped - this is expected'',
            Guardrail_result_line
              (Some \<lparr>agent_output = output,
                     guardrail_output =
                       \<lparr>output_info =
                          \<lparr>is_harmful = True, info_score = score result,
                           info_decision = decision result, reasoning = reason result\<rparr>,
                        tripwire_triggered = True\<rparr>\<rparr>)]\<rparr>,
      scans @ [[UserMessage (Some user_text), AssistantMessage output]])"
proof -
  have "Runner_run model (safe_assistant lf) user_text [''user_input'' \<mapsto> user_text] scans =
     (Inl (OutputGuardrailTripwireTriggered
             \<lparr>agent_output = output,
              guardrail_output =
                \<lparr>output_info =
                   \<lparr>is_harmful = True, info_score = score result,
                    info_decision = decision result, reasoning = reason result\<rparr>,
                 tripwire_triggered = True\<rparr>\<rparr>),
      scans @ [[UserMessage (Some user_text), AssistantMessage output]])"
    using Runner_run_tripped [where ctx = "[''user_input'' \<mapsto> user_text]"] assms by simp
  then show ?thesis
    by (simp add: guarded_run_def Let_def guardrail_result_def)
qed

lemma guarded_run_allowed:
  assumes "model (model_name (safe_assistant lf)) (instructions (safe_assistant lf)) user_text =
             Inr output"
    and "lf [UserMessage (Some user_text), AssistantMessage output] = Inr result"
    and "decision result = ALLOW"
  shows "guarded_run model (safe_assistant lf) user_text st scans =
     ((None, None),
      st\<lparr>run_ctx := [''user_input'' \<mapsto> user_text],
         response := Some \<lparr>run_input = user_text, final_output = output\<rparr>,
         printed := printed st @
           [Line ''Guardrail didn't trip - this is unexpected'',
            Response_line \<lparr>run_input = user_text, final_output = output\<rparr>]\<rparr>,
      scans @ [[UserMessage (Some user_text), AssistantMessage output]])"
proof -
  have "Runner_run model (safe_assistant lf) user_text [''user_input'' \<mapsto> user_text] scans =
     (Inr \<lparr>run_input = user_text, final_output = output\<rparr>,
      scans @ [[UserMessage (Some user_text), AssistantMessage output]])"
    using Runner_run_allowed [where ctx = "[''user_input'' \<mapsto> user_text]"] assms by simp
  then show ?thesis
    by (simp add: guarded_run_def Let_def)
qed

lemma guarded_run_scans:
  assumes "model (model_name (safe_assistant lf)) (instructions (safe_assistant lf)) user_text =
             Inr output"
  shows "snd (snd (guarded_run model (safe_assistant lf) user_text st scans)) =
     scans @ [[UserMessage (Some user_text), AssistantMessage output]]"
proof -
  have "snd (Runner_run model (safe_assistant lf) user_text [''user_input'' \<mapsto> user_text] scans) =
     scans @ [[UserMessage (Some user_text), AssistantMessage output]]"
    using Runner_run_scans [where ctx = "[''user_input'' \<mapsto> user_text]"] assms by simp
  then show ?thesis
    by (cases "Runner_run model (safe_assistant lf) user_text [''user_input'' \<mapsto> user_text] scans")
       (simp add: guarded_run_def Let_def split: sum.splits agent_exception.splits)
qed

text \<open>
  C1, as the spec states it, fails on the notebook. The cell stores the submitted
  text in \<^verbatim>\<open>context\<close>, the object the notebook passes along "to maintain conversation
  history", before it runs the agent, and nothing restores it when the output
  guardrail blocks the reply: after a rejected run the context holds the user's input
  that it did not hold before, so the state is not the state before the submission.
\<close>

theorem rejected_run_keeps_input_counterexample:
  "fst (fst (guarded_run hamburger_model (safe_assistant (fixed_scanner BLOCK))
               ''Make me a pizza'' fresh_cells [])) = None \<and>
   guardrail_result_decision
     (snd (fst (guarded_run hamburger_model (safe_assistant (fixed_scanner BLOCK))
                  ''Make me a pizza'' fresh_cells []))) = Some BLOCK \<and>
   run_ctx fresh_cells ''user_input'' = None \<and>
   run_ctx (fst (snd (guarded_run hamburger_model (safe_assistant (fixed_scanner BLOCK))
                        ''Make me a pizza'' fresh_cells []))) ''user_input'' =
     Some ''Make me a pizza'' \<and>
   fst (snd (guarded_run hamburger_model (safe_assistant (fixed_scanner BLOCK))
               ''Make me a pizza'' fresh_cells [])) \<noteq> fresh_cells"
proof -
  have run: "guarded_run hamburger_model (safe_assistant (fixed_scanner BLOCK))
      ''Make me a pizza'' fresh_cells [] =
     ((None,
       Some (OutputGuardrailTripwireTriggered
               \<lparr>agent_output = ''I'll make a hamburger.'',
                guardrail_output =
                  \<lparr>output_info =
                     \<lparr>is_harmful = True, info_score = 1,
                      info_decision = BLOCK, reasoning = ''Conclusion''\<rparr>,
                   tripwire_triggered = True\<rparr>\<rparr>)),
      fresh_cells\<lparr>run_ctx := [''user_input'' \<mapsto> ''Make me a pizza''],
         printed := printed fresh_cells @
           [Line ''Guardrail tripped - this is expected'',
            Guardrail_result_line
              (Some \<lparr>agent_output = ''I'll make a hamburger.'',
                     guardrail_output =
                       \<lparr>output_info =
                          \<lparr>is_harmful = True, info_score = 1,
                           info_decision = BLOCK, reasoning = ''Conclusion''\<rparr>,
                        tripwire_triggered = True\<rparr>\<rparr>)]\<rparr>,
      [] @ [[UserMessage (Some ''Make me a pizza''),
             AssistantMessage ''I'll make a hamburger.'']])"
    using guarded_run_tripped
      [of hamburger_model "fixed_scanner BLOCK" "''Make me a pizza''"
          "''I'll make a hamburger.''"
          "\<lparr>decision = BLOCK, reason = ''Conclusion'', score = 1\<rparr>" fresh_cells "[]"]
    by (simp add: hamburger_model_def fixed_scanner_def)
  have caught: "fst (guarded_run hamburger_model (safe_assistant (fixed_scanner BLOCK))
      ''Make me a pizza'' fresh_cells []) =
     (None,
      Some (OutputGuardrailTripwireTriggered
              \<lparr>agent_output = ''I'll make a hamburger.'',
               guardrail_output =
                 \<lparr>output_info =
                    \<lparr>is_harmful = True, info_score = 1,
                     info_decision = BLOCK, reasoning = ''Conclusion''\<rparr>,
                  tripwire_triggered = True\<rparr>\<rparr>))"
    by (simp only: run fst_conv)
  have after: "fst (snd (guarded_run hamburger_model (safe_assistant (fixed_scanner BLOCK))
      ''Make me a pizza'' fresh_cells [])) =
     fresh_cells\<lparr>run_ctx := [''user_input'' \<mapsto> ''Make me a pizza''],
        printed := printed fresh_cells @
          [Line ''Guardrail tripped - this is expected'',
           Guardrail_result_line
             (Some \<lparr>agent_output = ''I'll make a hamburger.'',
                    guardrail_output =
                      \<lparr>output_info =
                         \<lparr>is_harmful = True, info_score = 1,
                          info_decision = BLOCK, reasoning = ''Conclusion''\<rparr>,
                       tripwire_triggered = True\<rparr>\<rparr>)]\<rparr>"
    by (simp only: run fst_conv snd_conv)
  have "printed (fst (snd (guarded_run hamburger_model (safe_assistant (fixed_scanner BLOCK))
      ''Make me a pizza'' fresh_cells []))) \<noteq> printed fresh_cells"
    unfolding after by simp
  then have changed: "fst (snd (guarded_run hamburger_model (safe_assistant (fixed_scanner BLOCK))
      ''Make me a pizza'' fresh_cells [])) \<noteq> fresh_cells"
    by auto
  have ctx: "run_ctx (fst (snd (guarded_run hamburger_model (safe_assistant (fixed_scanner BLOCK))
      ''Make me a pizza'' fresh_cells []))) ''user_input'' = Some ''Make me a pizza''"
    unfolding after by simp
  have before: "run_ctx fresh_cells ''user_input'' = None"
    by (simp add: fresh_cells_def)
  have dec: "guardrail_result_decision
     (snd (fst (guarded_run hamburger_model (safe_assistant (fixed_scanner BLOCK))
                  ''Make me a pizza'' fresh_cells []))) = Some BLOCK"
    unfolding caught by (simp add: guardrail_result_decision_def guardrail_result_def)
  have uncaught: "fst (fst (guarded_run hamburger_model (safe_assistant (fixed_scanner BLOCK))
               ''Make me a pizza'' fresh_cells [])) = None"
    unfolding caught by simp
  from uncaught dec before ctx changed show ?thesis
    by blast
qed

text \<open>
  C1, amended. When the output guardrail blocks the candidate reply (decision Block,
  or human-in-the-loop left unresolved), the guarded run ends rejected: no exception
  leaves the cell, the caller's \<^verbatim>\<open>except\<close> clause receives
  \<^verbatim>\<open>OutputGuardrailTripwireTriggered\<close> with the guardrail's result (the candidate text
  and the decision, score and reasoning of the scan), and the candidate is stored
  nowhere: \<^verbatim>\<open>response\<close> is as it was before the run. The submission is not rolled back:
  \<^verbatim>\<open>context\<close> holds the submitted user input after the run, and the cell has printed
  its two lines. The notebook keeps no list of turns.
\<close>

theorem rejected_run_keeps_input:
  assumes "model (model_name (safe_assistant lf)) (instructions (safe_assistant lf)) user_text =
             Inr output"
    and "lf [UserMessage (Some user_text), AssistantMessage output] = Inr result"
    and "decision result = BLOCK \<or> decision result = HUMAN_IN_THE_LOOP_REQUIRED"
  shows "\<exists>rejection.
     guarded_run model (safe_assistant lf) user_text st scans =
       ((None, Some (OutputGuardrailTripwireTriggered rejection)),
        st\<lparr>run_ctx := [''user_input'' \<mapsto> user_text],
           printed := printed st @
             [Line ''Guardrail tripped - this is expected'',
              Guardrail_result_line (Some rejection)]\<rparr>,
        scans @ [[UserMessage (Some user_text), AssistantMessage output]]) \<and>
     rejection =
       \<lparr>agent_output = output,
        guardrail_output =
          \<lparr>output_info =
             \<lparr>is_harmful = True, info_score = score result,
              info_decision = decision result, reasoning = reason result\<rparr>,
           tripwire_triggered = True\<rparr>\<rparr> \<and>
     response (fst (snd (guarded_run model (safe_assistant lf) user_text st scans))) =
       response st \<and>
     run_ctx (fst (snd (guarded_run model (safe_assistant lf) user_text st scans))) =
       [''user_input'' \<mapsto> user_text]"
  using assms guarded_run_tripped [of model lf user_text "output" result st scans]
  by simp

theorem rejected_run_keeps_input_witness:
  "\<exists>rejection.
     guarded_run hamburger_model (safe_assistant (fixed_scanner HUMAN_IN_THE_LOOP_REQUIRED))
         ''Make me a pizza'' fresh_cells [] =
       ((None, Some (OutputGuardrailTripwireTriggered rejection)),
        fresh_cells\<lparr>run_ctx := [''user_input'' \<mapsto> ''Make me a pizza''],
           printed := printed fresh_cells @
             [Line ''Guardrail tripped - this is expected'',
              Guardrail_result_line (Some rejection)]\<rparr>,
        [] @ [[UserMessage (Some ''Make me a pizza''),
               AssistantMessage ''I'll make a hamburger.'']]) \<and>
     rejection =
       \<lparr>agent_output = ''I'll make a hamburger.'',
        guardrail_output =
          \<lparr>output_info =
             \<lparr>is_harmful = True, info_score = 1,
              info_decision = HUMAN_IN_THE_LOOP_REQUIRED, reasoning = ''Conclusion''\<rparr>,
           tripwire_triggered = True\<rparr>\<rparr> \<and>
     response (fst (snd (guarded_run hamburger_model
         (safe_assistant (fixed_scanner HUMAN_IN_THE_LOOP_REQUIRED))
         ''Make me a pizza'' fresh_cells []))) = None \<and>
     run_ctx (fst (snd (guarded_run hamburger_model
         (safe_assistant (fixed_scanner HUMAN_IN_THE_LOOP_REQUIRED))
         ''Make me a pizza'' fresh_cells []))) ''user_input'' = Some ''Make me a pizza''"
  using rejected_run_keeps_input
    [of hamburger_model "fixed_scanner HUMAN_IN_THE_LOOP_REQUIRED" "''Make me a pizza''"
        "''I'll make a hamburger.''"
        "\<lparr>decision = HUMAN_IN_THE_LOOP_REQUIRED, reason = ''Conclusion'', score = 1\<rparr>"
        fresh_cells "[]"]
  by (simp add: hamburger_model_def fixed_scanner_def fresh_cells_def)

text \<open>
  C3. A scan that asks for a human in the loop is treated exactly as a Block: in both
  cases the guardrail reports the output as harmful and triggers its tripwire, its
  result carries the scan's decision, score and reasoning to the caller, and the run
  raises \<^verbatim>\<open>OutputGuardrailTripwireTriggered\<close> with that result instead of returning the
  candidate reply.
\<close>

theorem needs_review_fails_closed:
  assumes "lf [UserMessage (ctx ''user_input''), AssistantMessage output] = Inr result"
    and "decision result = HUMAN_IN_THE_LOOP_REQUIRED \<or> decision result = BLOCK"
    and "model (model_name (safe_assistant lf)) (instructions (safe_assistant lf)) input =
           Inr output"
  shows "\<exists>g. fst (llamafirewall_check_output lf ctx agent output scans) = Inr g \<and>
     tripwire_triggered g \<and>
     is_harmful (output_info g) \<and>
     info_decision (output_info g) = decision result \<and>
     info_score (output_info g) = score result \<and>
     reasoning (output_info g) = reason result \<and>
     fst (Runner_run model (safe_assistant lf) input ctx scans) =
       Inl (OutputGuardrailTripwireTriggered \<lparr>agent_output = output, guardrail_output = g\<rparr>)"
proof -
  from assms(2) have d: "decision result = BLOCK \<or> decision result = HUMAN_IN_THE_LOOP_REQUIRED"
    by blast
  have run: "fst (Runner_run model (safe_assistant lf) input ctx scans) =
      Inl (OutputGuardrailTripwireTriggered
             \<lparr>agent_output = output,
              guardrail_output =
                \<lparr>output_info =
                   \<lparr>is_harmful = True, info_score = score result,
                    info_decision = decision result, reasoning = reason result\<rparr>,
                 tripwire_triggered = True\<rparr>\<rparr>)"
    using Runner_run_tripped [of model lf "input" "output" ctx result scans] assms(1,3) d
    by simp
  have chk: "fst (llamafirewall_check_output lf ctx agent output scans) =
      Inr \<lparr>output_info =
             \<lparr>is_harmful = True, info_score = score result,
              info_decision = decision result, reasoning = reason result\<rparr>,
           tripwire_triggered = True\<rparr>"
    using llamafirewall_check_output_result [of lf ctx "output" result agent scans] assms(1) d
    by simp
  from run chk show ?thesis by simp
qed

theorem needs_review_fails_closed_witness:
  "\<exists>g. fst (llamafirewall_check_output (fixed_scanner HUMAN_IN_THE_LOOP_REQUIRED)
              [''user_input'' \<mapsto> ''Make me a pizza'']
              (agent_settings.truncate (safe_assistant (fixed_scanner HUMAN_IN_THE_LOOP_REQUIRED)))
              ''I'll make a hamburger.'' []) = Inr g \<and>
     tripwire_triggered g \<and>
     is_harmful (output_info g) \<and>
     info_decision (output_info g) = HUMAN_IN_THE_LOOP_REQUIRED \<and>
     info_score (output_info g) = 1 \<and>
     reasoning (output_info g) = ''Conclusion'' \<and>
     fst (Runner_run hamburger_model (safe_assistant (fixed_scanner HUMAN_IN_THE_LOOP_REQUIRED))
            ''Make me a pizza'' [''user_input'' \<mapsto> ''Make me a pizza''] []) =
       Inl (OutputGuardrailTripwireTriggered
              \<lparr>agent_output = ''I'll make a hamburger.'', guardrail_output = g\<rparr>)"
  using needs_review_fails_closed
    [of "fixed_scanner HUMAN_IN_THE_LOOP_REQUIRED" "[''user_input'' \<mapsto> ''Make me a pizza'']"
        "''I'll make a hamburger.''"
        "\<lparr>decision = HUMAN_IN_THE_LOOP_REQUIRED, reason = ''Conclusion'', score = 1\<rparr>"
        hamburger_model "''Make me a pizza''"
        "agent_settings.truncate (safe_assistant (fixed_scanner HUMAN_IN_THE_LOOP_REQUIRED))"
        "[]"]
  by (simp add: hamburger_model_def fixed_scanner_def)

text \<open>
  C8. The output guardrail scans exactly one trace per call: the user's input taken
  from the run's context, followed by the candidate reply. In the guarded run the
  context holds the text the user submitted, so the trace is that user turn and the
  candidate. The scan happens before the reply is bound: \<^verbatim>\<open>response\<close> receives the
  candidate only when the policy of the spec's input scan (Block and NeedsReview are
  rejected, Allow proceeds) lets the scan's decision proceed, and stays as it was
  otherwise.
\<close>

theorem output_scan_trace:
  assumes "model (model_name (safe_assistant lf)) (instructions (safe_assistant lf)) user_text =
             Inr output"
  shows "snd (llamafirewall_check_output lf ctx agent output scans) =
           scans @ [[UserMessage (ctx ''user_input''), AssistantMessage output]] \<and>
         snd (snd (guarded_run model (safe_assistant lf) user_text st scans)) =
           scans @ [[UserMessage (Some user_text), AssistantMessage output]] \<and>
         (lf [UserMessage (Some user_text), AssistantMessage output] = Inr result \<longrightarrow>
            response (fst (snd (guarded_run model (safe_assistant lf) user_text st scans))) =
              (case spec_input_scan_policy (decision result) of
                 Rejected \<Rightarrow> response st
               | Proceed \<Rightarrow> Some \<lparr>run_input = user_text, final_output = output\<rparr>))"
proof -
  have committed: "response (fst (snd (guarded_run model (safe_assistant lf) user_text st scans))) =
      (case spec_input_scan_policy (decision result) of
         Rejected \<Rightarrow> response st
       | Proceed \<Rightarrow> Some \<lparr>run_input = user_text, final_output = output\<rparr>)"
    if scan: "lf [UserMessage (Some user_text), AssistantMessage output] = Inr result"
  proof (cases "decision result")
    case ALLOW
    then show ?thesis
      using guarded_run_allowed [of model lf user_text "output" result st scans] assms scan
      by simp
  next
    case HUMAN_IN_THE_LOOP_REQUIRED
    then show ?thesis
      using guarded_run_tripped [of model lf user_text "output" result st scans] assms scan
      by simp
  next
    case BLOCK
    then show ?thesis
      using guarded_run_tripped [of model lf user_text "output" result st scans] assms scan
      by simp
  qed
  with llamafirewall_check_output_scans [of lf ctx agent "output" scans]
    guarded_run_scans [of model lf user_text "output" st scans] assms
  show ?thesis by simp
qed

theorem output_scan_trace_witness:
  "snd (llamafirewall_check_output (fixed_scanner ALLOW) [''user_input'' \<mapsto> ''Make me a pizza'']
          (agent_settings.truncate (safe_assistant (fixed_scanner ALLOW)))
          ''I'll make a hamburger.'' []) =
     [[UserMessage (Some ''Make me a pizza''), AssistantMessage ''I'll make a hamburger.'']] \<and>
   snd (snd (guarded_run hamburger_model (safe_assistant (fixed_scanner ALLOW))
               ''Make me a pizza'' fresh_cells [])) =
     [[UserMessage (Some ''Make me a pizza''), AssistantMessage ''I'll make a hamburger.'']] \<and>
   response (fst (snd (guarded_run hamburger_model (safe_assistant (fixed_scanner ALLOW))
                         ''Make me a pizza'' fresh_cells []))) =
     Some \<lparr>run_input = ''Make me a pizza'', final_output = ''I'll make a hamburger.''\<rparr>"
  using output_scan_trace
    [of hamburger_model "fixed_scanner ALLOW" "''Make me a pizza''" "''I'll make a hamburger.''"
        "[''user_input'' \<mapsto> ''Make me a pizza'']"
        "agent_settings.truncate (safe_assistant (fixed_scanner ALLOW))" "[]" fresh_cells
        "\<lparr>decision = ALLOW, reason = ''Conclusion'', score = 1\<rparr>"]
  by (simp add: hamburger_model_def fixed_scanner_def)

section \<open>Properties of the aggregate\<close>

lemma precedence_inj: "precedence a = precedence b \<Longrightarrow> a = b"
  by (cases a; cases b) simp_all

lemma worst_of_single: "worst_of {#v#} (single_outcome v)"
  by (simp add: worst_of_def single_outcome_def)

lemma worst_of_absorb:
  assumes "worst_of M out"
  shows "worst_of (add_mset v M) (absorb out v)"
proof -
  consider (higher) "precedence (outcome_decision out) < precedence (verdict_decision v)"
    | (same) "verdict_decision v = outcome_decision out"
    | (lower) "precedence (verdict_decision v) < precedence (outcome_decision out)"
    using precedence_inj [of "verdict_decision v" "outcome_decision out"] by fastforce
  then show ?thesis
  proof cases
    case higher
    with assms show ?thesis
      by (fastforce simp: worst_of_def absorb_def)
  next
    case same
    with assms show ?thesis
      by (fastforce simp: worst_of_def absorb_def max_def)
  next
    case lower
    with assms show ?thesis
      by (fastforce simp: worst_of_def absorb_def)
  qed
qed

lemma worst_of_foldl:
  "worst_of M out \<Longrightarrow> worst_of (M + mset vs) (foldl absorb out vs)"
proof (induction vs arbitrary: M out)
  case Nil
  then show ?case by simp
next
  case (Cons v vs)
  from Cons.IH [OF worst_of_absorb [OF Cons.prems, of v]]
  show ?case by simp
qed

lemma worst_of_aggregate:
  "vs \<noteq> [] \<Longrightarrow> \<exists>out. aggregate vs = Some out \<and> worst_of (mset vs) out"
proof (cases vs)
  case Nil
  assume "vs \<noteq> []"
  with Nil show ?thesis by simp
next
  case (Cons v ws)
  from worst_of_foldl [OF worst_of_single, of v ws] Cons
  show ?thesis by simp
qed

lemma worst_of_unique:
  assumes "worst_of M a" and "worst_of M b"
  shows "a = b"
proof -
  from assms have "precedence (outcome_decision a) \<le> precedence (outcome_decision b)"
    and "precedence (outcome_decision b) \<le> precedence (outcome_decision a)"
    unfolding worst_of_def by metis+
  then have d: "outcome_decision a = outcome_decision b"
    using precedence_inj by simp
  from assms d have "outcome_score a \<le> outcome_score b" and "outcome_score b \<le> outcome_score a"
    unfolding worst_of_def by metis+
  with d assms show ?thesis
    by (simp add: worst_of_def)
qed

lemma worst_of_decision:
  assumes "worst_of (mset vs) out"
  shows "outcome_decision out =
     (if \<exists>v\<in>set vs. verdict_decision v = Block then Block
      else if \<exists>v\<in>set vs. verdict_decision v = NeedsReview then NeedsReview
      else Allow)"
proof -
  from assms obtain w where w: "w \<in> set vs" "verdict_decision w = outcome_decision out"
    unfolding worst_of_def by auto
  from assms have le: "\<And>v. v \<in> set vs \<Longrightarrow>
      precedence (verdict_decision v) \<le> precedence (outcome_decision out)"
    unfolding worst_of_def by auto
  show ?thesis
  proof (cases "outcome_decision out")
    case Allow
    have "verdict_decision v = Allow" if "v \<in> set vs" for v
      using le [OF that] Allow by (cases "verdict_decision v") simp_all
    with Allow show ?thesis by auto
  next
    case NeedsReview
    have "verdict_decision v \<noteq> Block" if "v \<in> set vs" for v
      using le [OF that] NeedsReview by (cases "verdict_decision v") simp_all
    with NeedsReview w show ?thesis by auto
  next
    case Block
    with w show ?thesis by auto
  qed
qed

lemma worst_of_score:
  assumes "worst_of (mset vs) out"
  shows "outcome_score out =
     Max (verdict_score ` {v \<in> set vs. verdict_decision v = outcome_decision out})"
proof -
  let ?A = "verdict_score ` {v \<in> set vs. verdict_decision v = outcome_decision out}"
  have "finite ?A" by simp
  moreover from assms have "\<And>y. y \<in> ?A \<Longrightarrow> y \<le> outcome_score out"
    unfolding worst_of_def by auto
  moreover from assms have "outcome_score out \<in> ?A"
    unfolding worst_of_def by force
  ultimately have "Max ?A = outcome_score out"
    by (rule Max_eqI)
  then show ?thesis by simp
qed

text \<open>
  C4. For every non-empty sequence of verdicts the aggregate exists; its decision is
  Block if any verdict is Block, otherwise NeedsReview if any verdict is NeedsReview,
  otherwise Allow; its score is the highest score among the verdicts with the winning
  decision; it holds all the verdicts; and any other order of arrival of the same
  verdicts gives the same aggregate.
\<close>

theorem aggregate_worst_case:
  assumes "vs \<noteq> []"
  shows "\<exists>out. aggregate vs = Some out \<and>
     outcome_decision out =
       (if \<exists>v\<in>set vs. verdict_decision v = Block then Block
        else if \<exists>v\<in>set vs. verdict_decision v = NeedsReview then NeedsReview
        else Allow) \<and>
     outcome_score out =
       Max (verdict_score ` {v \<in> set vs. verdict_decision v = outcome_decision out}) \<and>
     outcome_verdicts out = mset vs \<and>
     (\<forall>ws. mset ws = mset vs \<longrightarrow> aggregate ws = Some out)"
proof -
  from worst_of_aggregate [OF assms] obtain out
    where out: "aggregate vs = Some out" "worst_of (mset vs) out" by blast
  have "aggregate ws = Some out" if "mset ws = mset vs" for ws
  proof -
    from that assms have "ws \<noteq> []" by auto
    from worst_of_aggregate [OF this] that obtain out'
      where "aggregate ws = Some out'" "worst_of (mset vs) out'" by auto
    with out(2) show ?thesis
      using worst_of_unique by blast
  qed
  with out worst_of_decision [OF out(2)] worst_of_score [OF out(2)]
  show ?thesis
    by (simp add: worst_of_def)
qed

theorem aggregate_worst_case_witness:
  "\<exists>out. aggregate [prompt_guard_verdict, alignment_verdict, regex_verdict, timeout_verdict] = Some out \<and> outcome_decision out = Block \<and>
     outcome_score out = 0.9 \<and>
     aggregate [timeout_verdict, regex_verdict, prompt_guard_verdict, alignment_verdict] = Some out"
proof -
  have ne: "[prompt_guard_verdict, alignment_verdict, regex_verdict, timeout_verdict] \<noteq> []" by simp
  have "mset [timeout_verdict, regex_verdict, prompt_guard_verdict, alignment_verdict] = mset [prompt_guard_verdict, alignment_verdict, regex_verdict, timeout_verdict]" by simp
  with aggregate_worst_case [OF ne] show ?thesis
    by (auto simp: absorb_def single_outcome_def prompt_guard_verdict_def alignment_verdict_def regex_verdict_def timeout_verdict_def)
qed

end
